theory Spec2Isabelle
  imports Complex_Main "HOL-Library.AList"
begin

section \<open>JavaScript values\<close>

text \<open>
  The server (\<^verbatim>\<open>src/server.js\<close>) stores plain JavaScript objects and merges request
  bodies into them without any schema, so a task is modelled as what it is: an object
  mapping property names to values. The values are those of JSON, and two more that the
  handlers meet: \<open>JUndefined\<close>, which reading an absent property gives, and \<open>JNaN\<close>,
  which \<^verbatim>\<open>parseInt\<close> gives for a path segment without digits. A number is modelled by
  its value (the two zeros are identified; the infinities, which \<^verbatim>\<open>JSON.parse\<close> and
  \<^verbatim>\<open>parseInt\<close> yield only for literals beyond the range of a double, are not
  represented). The handlers never look inside a nested array or object, which is kept
  as JSON gives it; the objects they do read and build, the request body and the task,
  are maps from property names to values.
\<close>

datatype jval =
    JUndefined
  | JNull
  | JBool bool
  | JNum real
  | JNaN
  | JStr string
  | JArr "jval list"
  | JObj "(string \<times> jval) list"

type_synonym objeto = "string \<rightharpoonup> jval"

type_synonym tarea = objeto

text \<open>Property read \<^verbatim>\<open>obj.k\<close>: the own property, or \<^verbatim>\<open>undefined\<close>.\<close>

definition campo :: "objeto \<Rightarrow> string \<Rightarrow> jval" where
  "campo obj k = (case obj k of None \<Rightarrow> JUndefined | Some v \<Rightarrow> v)"

text \<open>
  Truthiness, as \<^verbatim>\<open>if (v)\<close>, \<^verbatim>\<open>!v\<close> and \<^verbatim>\<open>v || d\<close> test it: \<^verbatim>\<open>undefined\<close>,
  \<^verbatim>\<open>null\<close>, \<^verbatim>\<open>false\<close>, zero, \<^verbatim>\<open>NaN\<close> and the empty string are falsy, everything
  else (every array and object included) is truthy.
\<close>

fun truthy :: "jval \<Rightarrow> bool" where
  "truthy JUndefined = False"
| "truthy JNull = False"
| "truthy (JBool b) = b"
| "truthy (JNum x) = (x \<noteq> 0)"
| "truthy JNaN = False"
| "truthy (JStr s) = (s \<noteq> [])"
| "truthy (JArr xs) = True"
| "truthy (JObj ps) = True"

text \<open>
  The result of \<^verbatim>\<open>parseInt(req.params.id)\<close>: a number, or \<^verbatim>\<open>NaN\<close> when the path
  segment does not start with digits. The same type holds the counters of the statistics,
  which can become \<^verbatim>\<open>NaN\<close>.
\<close>

datatype numero = NaN | Num real

fun valor :: "numero \<Rightarrow> jval" where
  "valor NaN = JNaN"
| "valor (Num n) = JNum n"

text \<open>
  \<^verbatim>\<open>t.id === id\<close>, with \<open>id\<close> the parsed number: strict equality holds when the
  property is a number of the same value, and never for \<^verbatim>\<open>NaN\<close>.
\<close>

fun id_igual :: "numero \<Rightarrow> tarea \<Rightarrow> bool" where
  "id_igual NaN t = False"
| "id_igual (Num n) t = (campo t ''id'' = JNum n)"

text \<open>
  A value of \<^verbatim>\<open>req.query\<close>: a string, or the array or nested object that the query
  parser builds for a repeated or bracketed parameter; an absent parameter is \<open>None\<close>
  (\<^verbatim>\<open>undefined\<close>).
\<close>

datatype qval = QStr string | QCompuesto

record consulta =
  q_categoria :: "qval option"
  q_prioridad :: "qval option"
  q_completada :: "qval option"

fun q_truthy :: "qval option \<Rightarrow> bool" where
  "q_truthy None = False"
| "q_truthy (Some (QStr s)) = (s \<noteq> [])"
| "q_truthy (Some QCompuesto) = True"

text \<open>
  \<^verbatim>\<open>t.campo === q\<close> for a query value \<open>q\<close>: a freshly parsed array or object is
  identical to nothing stored.
\<close>

fun q_igual :: "jval \<Rightarrow> qval option \<Rightarrow> bool" where
  "q_igual v None = (v = JUndefined)"
| "q_igual v (Some (QStr s)) = (v = JStr s)"
| "q_igual v (Some QCompuesto) = False"

section \<open>The store and the responses\<close>

text \<open>
  The handlers use two free identifiers of the module, \<^verbatim>\<open>tareas\<close> and \<^verbatim>\<open>contadorId\<close>.
  The only declaration of \<^verbatim>\<open>tareas\<close> in the source is inside the block comment of lines
  26 to 47, so the module itself binds no such identifier: \<open>tareas s = None\<close> is the
  state without a binding, in which reading \<^verbatim>\<open>tareas\<close> throws a \<^verbatim>\<open>ReferenceError\<close>,
  and \<open>tareas s = Some ts\<close> is the state in which the identifier is bound to the array
  \<open>ts\<close>. No statement of the source declares or assigns it, so the program starts and
  stays without a binding.

  \<^verbatim>\<open>contadorId\<close> is a JavaScript number that starts at 3 (line 48) and is only changed
  by \<^verbatim>\<open>contadorId++\<close>. It always holds a whole number, kept as a natural number here;
  \<open>siguiente\<close> is the addition of one as a double performs it: exact below \<open>2 ^ 53\<close>,
  a tie rounded to the even mantissa from there to \<open>2 ^ 54\<close>, and without effect above.
\<close>

record almacen =
  tareas :: "tarea list option"
  contadorId :: nat

definition siguiente :: "nat \<Rightarrow> nat" where
  "siguiente c =
     (if c < 2 ^ 53 then Suc c
      else if c < 2 ^ 54 \<and> odd (c div 2) then c + 2
      else c)"

record estadisticas =
  total :: nat
  completadas :: nat
  pendientes :: nat
  porCategoria :: "(string \<times> numero) list"

text \<open>
  What is sent. \<^verbatim>\<open>res.status(c).json(x)\<close> sends the status (200 unless set) and the
  value: \<open>CError m\<close> is the object \<^verbatim>\<open>{ error: m }\<close>, \<open>CEliminada m t\<close> is
  \<^verbatim>\<open>{ mensaje: m, tarea: t }\<close>. When a handler throws, the framework's default error
  handler answers with status 500 and a page about the exception, which is
  \<open>CExcepcion\<close> with the exception's text; the handler registered last (lines 188 to
  190) takes two arguments and is skipped for errors.
\<close>

datatype cuerpo =
    CTarea tarea
  | CLista "tarea list"
  | CError string
  | CEliminada string tarea
  | CEstadisticas estadisticas
  | CExcepcion string

datatype respuesta = Respuesta (estado: nat) (cuerpo: cuerpo)

definition no_encontrada :: respuesta where
  "no_encontrada = Respuesta 404 (CError ''Tarea no encontrada'')"

text \<open>The answer to a request whose handler read \<^verbatim>\<open>tareas\<close> without a binding.\<close>

definition no_declarada :: respuesta where
  "no_declarada = Respuesta 500 (CExcepcion ''ReferenceError: tareas is not defined'')"

text \<open>
  \<^verbatim>\<open>Array.prototype.findIndex\<close>; \<open>None\<close> stands for the result \<open>-1\<close>. An index that
  it returns lies within the array (lemma \<open>findIndex_Some_split\<close> below), so the handlers'
  reads \<^verbatim>\<open>tareas[index]\<close> are in range.
\<close>

fun findIndex :: "('a \<Rightarrow> bool) \<Rightarrow> 'a list \<Rightarrow> nat option" where
  "findIndex P [] = None"
| "findIndex P (x # xs) = (if P x then Some 0 else map_option Suc (findIndex P xs))"

section \<open>The handlers\<close>

text \<open>
  \<^verbatim>\<open>GET /api/tareas\<close> (lines 58 to 83). Line 64 reads \<^verbatim>\<open>tareas\<close> before anything is
  sent.
\<close>

definition listar :: "almacen \<Rightarrow> consulta \<Rightarrow> respuesta" where
  "listar s q =
     (case tareas s of
        None \<Rightarrow> no_declarada
      | Some ts \<Rightarrow>
          (let tareasFiltradas = ts;
               tareasFiltradas =
                 (if q_truthy (q_categoria q)
                  then filter (\<lambda>t. q_igual (campo t ''categoria'') (q_categoria q))
                         tareasFiltradas
                  else tareasFiltradas);
               tareasFiltradas =
                 (if q_truthy (q_prioridad q)
                  then filter (\<lambda>t. q_igual (campo t ''prioridad'') (q_prioridad q))
                         tareasFiltradas
                  else tareasFiltradas);
               tareasFiltradas =
                 (if q_completada q \<noteq> None
                  then (let isCompletada = (q_completada q = Some (QStr ''true''))
                        in filter (\<lambda>t. campo t ''completada'' = JBool isCompletada)
                             tareasFiltradas)
                  else tareasFiltradas)
           in Respuesta 200 (CLista tareasFiltradas)))"

text \<open>
  \<^verbatim>\<open>GET /api/tareas/:id\<close> (lines 86 to 95). Line 88 reads \<^verbatim>\<open>tareas\<close>. A found task is
  an object, hence truthy.
\<close>

definition obtener :: "almacen \<Rightarrow> numero \<Rightarrow> respuesta" where
  "obtener s i =
     (case tareas s of
        None \<Rightarrow> no_declarada
      | Some ts \<Rightarrow>
          (case find (id_igual i) ts of
             Some tarea \<Rightarrow> Respuesta 200 (CTarea tarea)
           | None \<Rightarrow> no_encontrada))"

text \<open>
  \<^verbatim>\<open>POST /api/tareas\<close> (lines 98 to 120). \<open>ahora\<close> is the value of
  \<^verbatim>\<open>new Date().toISOString()\<close> at the time of the request. The validation returns
  before either identifier is used. After it, the object literal of lines 108 to 116 is
  built first, which runs \<^verbatim>\<open>contadorId++\<close> (line 109), and only then line 118 reads
  \<^verbatim>\<open>tareas\<close>: without a binding the request fails with the counter already advanced.
\<close>

definition crear :: "almacen \<Rightarrow> objeto \<Rightarrow> string \<Rightarrow> almacen \<times> respuesta" where
  "crear s body ahora =
     (let titulo = campo body ''titulo'';
          descripcion = campo body ''descripcion'';
          categoria = campo body ''categoria'';
          prioridad = campo body ''prioridad''
      in if \<not> truthy titulo \<or> \<not> truthy categoria \<or> \<not> truthy prioridad
         then (s, Respuesta 400
                 (CError ''Faltan campos requeridos: titulo, categoria, prioridad''))
         else
           (let nuevaTarea =
                  [''id'' \<mapsto> JNum (real (contadorId s)),
                   ''titulo'' \<mapsto> titulo,
                   ''descripcion'' \<mapsto> (if truthy descripcion then descripcion else JStr ''''),
                   ''categoria'' \<mapsto> categoria,
                   ''prioridad'' \<mapsto> prioridad,
                   ''completada'' \<mapsto> JBool False,
                   ''fecha'' \<mapsto> JStr ahora];
                s1 = s\<lparr>contadorId := siguiente (contadorId s)\<rparr>
            in case tareas s1 of
                 None \<Rightarrow> (s1, no_declarada)
               | Some ts \<Rightarrow>
                   (s1\<lparr>tareas := Some (ts @ [nuevaTarea])\<rparr>,
                    Respuesta 201 (CTarea nuevaTarea))))"

text \<open>
  \<^verbatim>\<open>PUT /api/tareas/:id\<close> (lines 123 to 139). Line 125 reads \<^verbatim>\<open>tareas\<close>. The object
  spread \<^verbatim>\<open>{ ...tareas[index], ...req.body, id }\<close> is the map of the old task overridden
  by the body, overridden by the parsed id.
\<close>

definition actualizar :: "almacen \<Rightarrow> numero \<Rightarrow> objeto \<Rightarrow> almacen \<times> respuesta" where
  "actualizar s i body =
     (case tareas s of
        None \<Rightarrow> (s, no_declarada)
      | Some ts \<Rightarrow>
          (case findIndex (id_igual i) ts of
             None \<Rightarrow> (s, no_encontrada)
           | Some index \<Rightarrow>
               (let nueva = (ts ! index ++ body)(''id'' \<mapsto> valor i)
                in (s\<lparr>tareas := Some (ts[index := nueva])\<rparr>,
                    Respuesta 200 (CTarea nueva)))))"

text \<open>
  \<^verbatim>\<open>PATCH /api/tareas/:id/toggle\<close> (lines 142 to 152). Line 144 reads \<^verbatim>\<open>tareas\<close>.
  \<^verbatim>\<open>find\<close> returns a reference to the first matching element of the array and the
  assignment mutates that object in place: the element at the first matching index
  changes.
\<close>

definition alternar :: "almacen \<Rightarrow> numero \<Rightarrow> almacen \<times> respuesta" where
  "alternar s i =
     (case tareas s of
        None \<Rightarrow> (s, no_declarada)
      | Some ts \<Rightarrow>
          (case findIndex (id_igual i) ts of
             None \<Rightarrow> (s, no_encontrada)
           | Some index \<Rightarrow>
               (let tarea = ts ! index;
                    tarea = tarea(''completada'' \<mapsto>
                              JBool (\<not> truthy (campo tarea ''completada'')))
                in (s\<lparr>tareas := Some (ts[index := tarea])\<rparr>,
                    Respuesta 200 (CTarea tarea)))))"

text \<open>
  \<^verbatim>\<open>DELETE /api/tareas/:id\<close> (lines 155 to 165). Line 157 reads \<^verbatim>\<open>tareas\<close>.
  \<^verbatim>\<open>splice(index, 1)\<close> removes the element at \<open>index\<close> and returns it in a
  one-element array.
\<close>

definition eliminar :: "almacen \<Rightarrow> numero \<Rightarrow> almacen \<times> respuesta" where
  "eliminar s i =
     (case tareas s of
        None \<Rightarrow> (s, no_declarada)
      | Some ts \<Rightarrow>
          (case findIndex (id_igual i) ts of
             None \<Rightarrow> (s, no_encontrada)
           | Some index \<Rightarrow>
               (let tareaEliminada = [ts ! index]
                in (s\<lparr>tareas := Some (take index ts @ drop (Suc index) ts)\<rparr>,
                    Respuesta 200 (CEliminada ''Tarea eliminada'' (hd tareaEliminada))))))"

text \<open>
  \<^verbatim>\<open>GET /api/estadisticas\<close> (lines 168 to 185). \<^verbatim>\<open>stats.porCategoria\<close> starts as the
  literal \<^verbatim>\<open>{}\<close>, an ordinary object: reading a key it does not own falls through to
  \<^verbatim>\<open>Object.prototype\<close>. The function-valued properties of that prototype are listed
  in \<open>proto_funciones\<close>; \<^verbatim>\<open>__proto__\<close> is its accessor, whose getter returns the
  prototype object and whose setter ignores a number.
\<close>

definition proto_funciones :: "string list" where
  "proto_funciones =
     [''constructor'', ''hasOwnProperty'', ''isPrototypeOf'', ''propertyIsEnumerable'',
      ''toLocaleString'', ''toString'', ''valueOf'', ''__defineGetter__'',
      ''__defineSetter__'', ''__lookupGetter__'', ''__lookupSetter__'']"

datatype lectura = Propia numero | Heredada | Ausente

definition leer :: "(string \<times> numero) list \<Rightarrow> string \<Rightarrow> lectura" where
  "leer pc k =
     (if k = ''__proto__'' then Heredada
      else case map_of pc k of
             Some v \<Rightarrow> Propia v
           | None \<Rightarrow> if k \<in> set proto_funciones then Heredada else Ausente)"

text \<open>Truthiness of what was read: an inherited function or object is truthy.\<close>

fun l_truthy :: "lectura \<Rightarrow> bool" where
  "l_truthy (Propia NaN) = False"
| "l_truthy (Propia (Num x)) = (x \<noteq> 0)"
| "l_truthy Heredada = True"
| "l_truthy Ausente = False"

text \<open>Its conversion to a number by \<^verbatim>\<open>++\<close>: a function, an object or \<^verbatim>\<open>undefined\<close> gives \<^verbatim>\<open>NaN\<close>.\<close>

fun l_numero :: "lectura \<Rightarrow> numero" where
  "l_numero (Propia v) = v"
| "l_numero Heredada = NaN"
| "l_numero Ausente = NaN"

fun mas_uno :: "numero \<Rightarrow> numero" where
  "mas_uno NaN = NaN"
| "mas_uno (Num x) = Num (x + 1)"

text \<open>
  The assignment \<^verbatim>\<open>stats.porCategoria[k] = v\<close> of a number: an own property is
  updated in place or appended, except under \<^verbatim>\<open>__proto__\<close>, where nothing happens.
\<close>

definition asignar :: "(string \<times> numero) list \<Rightarrow> string \<Rightarrow> numero \<Rightarrow> (string \<times> numero) list" where
  "asignar pc k v = (if k = ''__proto__'' then pc else AList.update k v pc)"

text \<open>The body of the \<^verbatim>\<open>forEach\<close> callback, for the property key \<open>k\<close>.\<close>

definition contar :: "(string \<times> numero) list \<Rightarrow> string \<Rightarrow> (string \<times> numero) list" where
  "contar pc k =
     (let pc = (if \<not> l_truthy (leer pc k) then asignar pc k (Num 0) else pc)
      in asignar pc k (mas_uno (l_numero (leer pc k))))"

text \<open>
  The property key that \<^verbatim>\<open>t.categoria\<close> becomes: a string is its own key, any other
  value is converted by the language's \<^verbatim>\<open>ToString\<close>, which is the parameter
  \<open>aCadena\<close> here.
\<close>

definition clave :: "(jval \<Rightarrow> string) \<Rightarrow> jval \<Rightarrow> string" where
  "clave aCadena v = (case v of JStr s \<Rightarrow> s | _ \<Rightarrow> aCadena v)"

definition estadisticas_de :: "(jval \<Rightarrow> string) \<Rightarrow> tarea list \<Rightarrow> estadisticas" where
  "estadisticas_de aCadena ts =
     \<lparr>total = length ts,
      completadas = length (filter (\<lambda>t. truthy (campo t ''completada'')) ts),
      pendientes = length (filter (\<lambda>t. \<not> truthy (campo t ''completada'')) ts),
      porCategoria = foldl (\<lambda>pc t. contar pc (clave aCadena (campo t ''categoria''))) [] ts\<rparr>"

text \<open>The handler itself: line 170 reads \<^verbatim>\<open>tareas\<close> before any counting.\<close>

definition obtenerEstadisticas :: "(jval \<Rightarrow> string) \<Rightarrow> almacen \<Rightarrow> respuesta" where
  "obtenerEstadisticas aCadena s =
     (case tareas s of
        None \<Rightarrow> no_declarada
      | Some ts \<Rightarrow> Respuesta 200 (CEstadisticas (estadisticas_de aCadena ts)))"

text \<open>The sum of numbers as JavaScript adds them: \<^verbatim>\<open>NaN\<close> absorbs.\<close>

fun mas :: "numero \<Rightarrow> numero \<Rightarrow> numero" where
  "mas (Num x) (Num y) = Num (x + y)"
| "mas a b = NaN"

definition suma :: "numero list \<Rightarrow> numero" where
  "suma vs = foldl mas (Num 0) vs"

section \<open>Sequences of requests\<close>

datatype peticion =
    PListar consulta
  | PObtener numero
  | PCrear objeto string
  | PActualizar numero objeto
  | PAlternar numero
  | PEliminar numero
  | PEstadisticas

text \<open>One request, routed to its handler; the handlers that only read leave the store as it is.\<close>

fun atender :: "(jval \<Rightarrow> string) \<Rightarrow> almacen \<Rightarrow> peticion \<Rightarrow> almacen \<times> respuesta" where
  "atender aCadena s (PListar q) = (s, listar s q)"
| "atender aCadena s (PObtener i) = (s, obtener s i)"
| "atender aCadena s (PCrear body ahora) = crear s body ahora"
| "atender aCadena s (PActualizar i body) = actualizar s i body"
| "atender aCadena s (PAlternar i) = alternar s i"
| "atender aCadena s (PEliminar i) = eliminar s i"
| "atender aCadena s PEstadisticas = (s, obtenerEstadisticas aCadena s)"

text \<open>A sequence of requests, each handled to completion before the next; the responses are collected.\<close>

fun ejecutar :: "(jval \<Rightarrow> string) \<Rightarrow> almacen \<Rightarrow> peticion list \<Rightarrow> almacen \<times> respuesta list" where
  "ejecutar aCadena s [] = (s, [])"
| "ejecutar aCadena s (p # ps) =
     (let (s1, r) = atender aCadena s p;
          (s2, rs) = ejecutar aCadena s1 ps
      in (s2, r # rs))"

text \<open>The ids that the successful creations of a run returned, in order.\<close>

fun ids_creados :: "peticion list \<Rightarrow> respuesta list \<Rightarrow> jval list" where
  "ids_creados (PCrear body ahora # ps) (Respuesta c (CTarea t) # rs) =
     (if c = 201 then campo t ''id'' # ids_creados ps rs else ids_creados ps rs)"
| "ids_creados (p # ps) (r # rs) = ids_creados ps rs"
| "ids_creados ps rs = []"

section \<open>Stores and requests of the examples\<close>

text \<open>
  The store in which the program starts: \<^verbatim>\<open>tareas\<close> has no binding, since its
  declaration is inside the comment of lines 26 to 47, and \<^verbatim>\<open>contadorId\<close> is 3
  (line 48).
\<close>

definition almacen_inicial :: almacen where
  "almacen_inicial = \<lparr>tareas = None, contadorId = 3\<rparr>"

text \<open>
  Request bodies: the spec's example, a second task, a body with an empty category, a
  partial update that also names another id, and a body whose category is the string
  \<^verbatim>\<open>"constructor"\<close>.
\<close>

definition cuerpo_leche :: objeto where
  "cuerpo_leche = [''titulo'' \<mapsto> JStr ''Buy milk'', ''categoria'' \<mapsto> JStr ''Personal'',
                   ''prioridad'' \<mapsto> JStr ''media'']"

definition cuerpo_pan :: objeto where
  "cuerpo_pan = [''titulo'' \<mapsto> JStr ''Bread'', ''descripcion'' \<mapsto> JStr ''two loaves'',
                 ''categoria'' \<mapsto> JStr ''Casa'', ''prioridad'' \<mapsto> JStr ''alta'']"

definition cuerpo_sin_categoria :: objeto where
  "cuerpo_sin_categoria = [''titulo'' \<mapsto> JStr ''Buy milk'', ''categoria'' \<mapsto> JStr '''',
                           ''prioridad'' \<mapsto> JStr ''media'']"


definition cuerpo_constructor :: objeto where
  "cuerpo_constructor = [''titulo'' \<mapsto> JStr ''Review'', ''categoria'' \<mapsto> JStr ''constructor'',
                         ''prioridad'' \<mapsto> JStr ''alta'']"

text \<open>
  Stores in which \<^verbatim>\<open>tareas\<close> is bound to an array, as a definition outside the module
  would bind it: to the empty array, and to the array of two tasks that the handlers
  build from the first two bodies. No run of the program reaches them.
\<close>

definition almacen_ligado :: almacen where
  "almacen_ligado = \<lparr>tareas = Some [], contadorId = 3\<rparr>"

definition tarea_leche :: tarea where
  "tarea_leche =
     [''id'' \<mapsto> JNum 3, ''titulo'' \<mapsto> JStr ''Buy milk'', ''descripcion'' \<mapsto> JStr '''',
      ''categoria'' \<mapsto> JStr ''Personal'', ''prioridad'' \<mapsto> JStr ''media'',
      ''completada'' \<mapsto> JBool False, ''fecha'' \<mapsto> JStr ''2024-05-01T10:00:00.000Z'']"

definition tarea_pan :: tarea where
  "tarea_pan =
     [''id'' \<mapsto> JNum 4, ''titulo'' \<mapsto> JStr ''Bread'', ''descripcion'' \<mapsto> JStr ''two loaves'',
      ''categoria'' \<mapsto> JStr ''Casa'', ''prioridad'' \<mapsto> JStr ''alta'',
      ''completada'' \<mapsto> JBool True, ''fecha'' \<mapsto> JStr ''2024-05-02T08:30:00.000Z'']"

definition almacen_dos :: almacen where
  "almacen_dos = \<lparr>tareas = Some [tarea_leche, tarea_pan], contadorId = 5\<rparr>"

text \<open>A key that \<^verbatim>\<open>Object.prototype\<close> does not answer for.\<close>

definition segura :: "string \<Rightarrow> bool" where
  "segura k = (k \<noteq> ''__proto__'' \<and> k \<notin> set proto_funciones)"

text \<open>Counters that are positive whole numbers, as a table of naturals.\<close>

definition de_nat :: "(string \<times> nat) list \<Rightarrow> (string \<times> numero) list" where
  "de_nat m = map (\<lambda>(k, n). (k, Num (real n))) m"

section \<open>Searching the array\<close>

lemma findIndex_None_iff: "findIndex P xs = None \<longleftrightarrow> (\<forall>x\<in>set xs. \<not> P x)"
  by (induction xs) auto

text \<open>The index found is that of the first element that satisfies the test.\<close>

lemma findIndex_Some_split:
  "findIndex P xs = Some k \<Longrightarrow>
     \<exists>pre post. xs = pre @ xs ! k # post \<and> length pre = k \<and> (\<forall>u\<in>set pre. \<not> P u) \<and> P (xs ! k)"
proof (induction xs arbitrary: k)
  case Nil
  then show ?case by simp
next
  case (Cons x xs)
  show ?case
  proof (cases "P x")
    case True
    with Cons.prems have "k = 0" by simp
    with True show ?thesis by (intro exI [of _ "[]"] exI [of _ xs]) simp
  next
    case False
    with Cons.prems obtain j where j: "findIndex P xs = Some j" "k = Suc j"
      by auto
    from Cons.IH [OF j(1)] obtain pre post where
      "xs = pre @ xs ! j # post" "length pre = j" "\<forall>u\<in>set pre. \<not> P u" "P (xs ! j)"
      by blast
    with False j(2) show ?thesis
      by (intro exI [of _ "x # pre"] exI [of _ post]) auto
  qed
qed

text \<open>\<^verbatim>\<open>find\<close> returns the element that \<^verbatim>\<open>findIndex\<close> points at.\<close>

lemma find_findIndex: "find P xs = map_option (\<lambda>k. xs ! k) (findIndex P xs)"
  by (induction xs) (auto simp: option.map_comp comp_def)

section \<open>The counter\<close>

lemma siguiente_exacto: "c < 2 ^ 53 \<Longrightarrow> siguiente c = Suc c"
  by (simp add: siguiente_def)

lemma siguiente_ejemplos [simp]: "siguiente 3 = 4" "siguiente 4 = 5"
  by (simp_all add: siguiente_def)

text \<open>At \<open>2 ^ 53\<close> the counter stops: \<^verbatim>\<open>contadorId++\<close> leaves it as it is.\<close>

lemma siguiente_estanca: "siguiente (2 ^ 53) = 2 ^ 53"
  by (simp add: siguiente_def)

section \<open>Requests without a binding for the array\<close>

text \<open>
  Without a binding every handler that reaches its first read of \<^verbatim>\<open>tareas\<close> throws:
  the request is answered with status 500 and the store keeps no array. Only the
  creation changes the store, by the counter that it has advanced before the read.
\<close>

lemma lecturas_sin_array:
  assumes "tareas s = None"
  shows "listar s q = no_declarada" "obtener s i = no_declarada"
    "actualizar s i body = (s, no_declarada)" "alternar s i = (s, no_declarada)"
    "eliminar s i = (s, no_declarada)" "obtenerEstadisticas aCadena s = no_declarada"
  using assms
  by (simp_all add: listar_def obtener_def actualizar_def alternar_def eliminar_def
      obtenerEstadisticas_def)

lemma crear_sin_array:
  assumes "tareas s = None"
  shows "crear s body ahora =
           (if \<not> truthy (campo body ''titulo'') \<or> \<not> truthy (campo body ''categoria'')
               \<or> \<not> truthy (campo body ''prioridad'')
            then (s, Respuesta 400
                    (CError ''Faltan campos requeridos: titulo, categoria, prioridad''))
            else (s\<lparr>contadorId := siguiente (contadorId s)\<rparr>, no_declarada))"
  using assms by (simp add: crear_def Let_def)

lemma atender_sin_array:
  assumes "tareas s = None"
  shows "tareas (fst (atender aCadena s p)) = None \<and>
         (estado (snd (atender aCadena s p)) = 400 \<or> estado (snd (atender aCadena s p)) = 500)"
  using assms
  by (cases p) (simp_all add: lecturas_sin_array crear_sin_array no_declarada_def)

lemma ids_creados_salta: "estado r \<noteq> 201 \<Longrightarrow> ids_creados (p # ps) (r # rs) = ids_creados ps rs"
proof (cases r)
  case (Respuesta c b)
  assume "estado r \<noteq> 201"
  with Respuesta show ?thesis
    by (cases p; cases b) simp_all
qed

text \<open>No run that starts without a binding ever gets one, or a creation answered with 201.\<close>

lemma ejecutar_sin_array:
  "tareas s = None \<Longrightarrow>
     tareas (fst (ejecutar aCadena s ps)) = None \<and>
     (\<forall>r\<in>set (snd (ejecutar aCadena s ps)). estado r = 400 \<or> estado r = 500) \<and>
     ids_creados ps (snd (ejecutar aCadena s ps)) = []"
proof (induction ps arbitrary: s)
  case Nil
  then show ?case by simp
next
  case (Cons p ps)
  obtain s1 r where a: "atender aCadena s p = (s1, r)"
    by (cases "atender aCadena s p")
  from atender_sin_array [OF Cons.prems, of aCadena p] a
  have n: "tareas s1 = None" and e: "estado r = 400 \<or> estado r = 500"
    by simp_all
  from e have "estado r \<noteq> 201" by auto
  with Cons.IH [OF n] a e show ?case
    by (simp add: split_def Let_def ids_creados_salta)
qed

section \<open>Creation\<close>

text \<open>
  Claim C2. A creation request whose title, category or priority is absent or falsy is
  answered with status 400 and the validation message, and the store that results is the
  store it started from: neither the array nor the counter changes. The request returns
  at lines 102 to 106, before \<^verbatim>\<open>tareas\<close> or \<^verbatim>\<open>contadorId\<close> is used, so this holds
  with and without a binding for the array.
\<close>

theorem crear_rechaza:
  assumes "\<not> truthy (campo body ''titulo'') \<or> \<not> truthy (campo body ''categoria'')
           \<or> \<not> truthy (campo body ''prioridad'')"
  shows "crear s body ahora =
           (s, Respuesta 400 (CError ''Faltan campos requeridos: titulo, categoria, prioridad'')) \<and>
         contadorId (fst (crear s body ahora)) =
           (if estado (snd (crear s body ahora)) = 201 then Suc (contadorId s) else contadorId s)"
  using assms by (auto simp: crear_def Let_def)

theorem crear_rechaza_witness:
  "campo cuerpo_sin_categoria ''categoria'' = JStr '''' \<and>
   \<not> truthy (campo cuerpo_sin_categoria ''categoria'') \<and>
   crear almacen_dos cuerpo_sin_categoria ''2024-05-03T09:00:00.000Z'' =
     (almacen_dos, Respuesta 400 (CError ''Faltan campos requeridos: titulo, categoria, prioridad'')) \<and>
   contadorId (fst (crear almacen_dos cuerpo_sin_categoria ''2024-05-03T09:00:00.000Z'')) = 5 \<and>
   crear almacen_inicial cuerpo_sin_categoria ''2024-05-03T09:00:00.000Z'' =
     (almacen_inicial,
      Respuesta 400 (CError ''Faltan campos requeridos: titulo, categoria, prioridad'')) \<and>
   contadorId (fst (crear almacen_inicial cuerpo_sin_categoria ''2024-05-03T09:00:00.000Z'')) = 3"
proof -
  have h: "\<not> truthy (campo cuerpo_sin_categoria ''titulo'')
      \<or> \<not> truthy (campo cuerpo_sin_categoria ''categoria'')
      \<or> \<not> truthy (campo cuerpo_sin_categoria ''prioridad'')"
    by (simp add: cuerpo_sin_categoria_def campo_def)
  have c: "contadorId almacen_dos = 5" "contadorId almacen_inicial = 3"
    by (simp_all add: almacen_dos_def almacen_inicial_def)
  have v: "campo cuerpo_sin_categoria ''categoria'' = JStr ''''"
    by (simp add: cuerpo_sin_categoria_def campo_def)
  from crear_rechaza [OF h, of almacen_dos "''2024-05-03T09:00:00.000Z''"]
    crear_rechaza [OF h, of almacen_inicial "''2024-05-03T09:00:00.000Z''"] v c
  show ?thesis
    by simp
qed

lemma cuerpos_validos:
  "truthy (campo cuerpo_leche ''titulo'')" "truthy (campo cuerpo_leche ''categoria'')"
  "truthy (campo cuerpo_leche ''prioridad'')"
  "truthy (campo cuerpo_pan ''titulo'')" "truthy (campo cuerpo_pan ''categoria'')"
  "truthy (campo cuerpo_pan ''prioridad'')"
  "truthy (campo cuerpo_constructor ''titulo'')" "truthy (campo cuerpo_constructor ''categoria'')"
  "truthy (campo cuerpo_constructor ''prioridad'')"
  by (simp_all add: cuerpo_leche_def cuerpo_pan_def cuerpo_constructor_def campo_def)

lemma crear_inicial_leche:
  "crear almacen_inicial cuerpo_leche ahora = (\<lparr>tareas = None, contadorId = 4\<rparr>, no_declarada)"
  by (simp add: crear_sin_array almacen_inicial_def cuerpos_validos)

text \<open>
  Claim C8 fails on the code. The spec's example request, whose title, category and
  priority are all truthy, is answered in the starting store with status 500, not 201:
  the push of line 118 reads the identifier \<^verbatim>\<open>tareas\<close>, which nothing declares. No task
  is returned or stored, and the counter has advanced from 3 to 4 all the same, because
  \<^verbatim>\<open>contadorId++\<close> ran at line 109.
\<close>

theorem crear_inicial:
  "truthy (campo cuerpo_leche ''titulo'') \<and> truthy (campo cuerpo_leche ''categoria'') \<and>
   truthy (campo cuerpo_leche ''prioridad'') \<and>
   atender aCadena almacen_inicial (PCrear cuerpo_leche ahora) =
     (\<lparr>tareas = None, contadorId = 4\<rparr>,
      Respuesta 500 (CExcepcion ''ReferenceError: tareas is not defined'')) \<and>
   estado (snd (atender aCadena almacen_inicial (PCrear cuerpo_leche ahora))) \<noteq> 201"
  by (simp add: crear_inicial_leche cuerpos_validos no_declarada_def)

section \<open>The ids of a run\<close>


section \<open>Listing\<close>

text \<open>
  Claim C3 fails on the code. In the starting store and in every store that a run reaches
  from it, the listing is answered with status 500 for every combination of filters, the
  empty one included: line 64 reads the identifier \<^verbatim>\<open>tareas\<close>, which nothing declares.
  No list is returned.
\<close>

theorem listar_inicial:
  "listar (fst (ejecutar aCadena almacen_inicial ps)) q =
     Respuesta 500 (CExcepcion ''ReferenceError: tareas is not defined'') \<and>
   listar almacen_inicial \<lparr>q_categoria = None, q_prioridad = None, q_completada = None\<rparr> =
     Respuesta 500 (CExcepcion ''ReferenceError: tareas is not defined'')"
proof -
  have n: "tareas almacen_inicial = None"
    by (simp add: almacen_inicial_def)
  from ejecutar_sin_array [OF n, of aCadena ps]
  have "tareas (fst (ejecutar aCadena almacen_inicial ps)) = None"
    by simp
  with n show ?thesis
    by (simp add: lecturas_sin_array no_declarada_def)
qed

text \<open>
  Claim C10 fails on the code. With the completion filter present, whatever its value and
  whatever the other filters, the listing in the starting store is answered with status
  500: the handler throws at line 64, before the lines 77 to 80 that interpret the filter
  are reached, so no value selects any task.
\<close>

theorem listar_completada_inicial:
  "listar almacen_inicial \<lparr>q_categoria = c, q_prioridad = p, q_completada = Some v\<rparr> =
     Respuesta 500 (CExcepcion ''ReferenceError: tareas is not defined'') \<and>
   listar almacen_inicial
       \<lparr>q_categoria = None, q_prioridad = None, q_completada = Some (QStr ''true'')\<rparr> =
     listar almacen_inicial
       \<lparr>q_categoria = None, q_prioridad = None, q_completada = Some (QStr ''false'')\<rparr>"
  by (simp add: listar_def almacen_inicial_def no_declarada_def)

section \<open>Requests that name an id\<close>

text \<open>
  Claim C5 fails on the code. In the starting store, where no task has any id, reading,
  updating, toggling and deleting are each answered with status 500 and the exception,
  not with 404 and \<^verbatim>\<open>Tarea no encontrada\<close>: lines 88, 125, 144 and 157 read the
  identifier \<^verbatim>\<open>tareas\<close> before any id is compared. The store is left as it was.
\<close>

theorem desconocido_inicial:
  "obtener almacen_inicial i = Respuesta 500 (CExcepcion ''ReferenceError: tareas is not defined'') \<and>
   actualizar almacen_inicial i body =
     (almacen_inicial, Respuesta 500 (CExcepcion ''ReferenceError: tareas is not defined'')) \<and>
   alternar almacen_inicial i =
     (almacen_inicial, Respuesta 500 (CExcepcion ''ReferenceError: tareas is not defined'')) \<and>
   eliminar almacen_inicial i =
     (almacen_inicial, Respuesta 500 (CExcepcion ''ReferenceError: tareas is not defined'')) \<and>
   estado (obtener almacen_inicial i) \<noteq> 404"
proof -
  have n: "tareas almacen_inicial = None"
    by (simp add: almacen_inicial_def)
  show ?thesis
    by (simp add: lecturas_sin_array [OF n] no_declarada_def)
qed




section \<open>Statistics\<close>

text \<open>Every task is counted as completed or as pending, by the truthiness of \<open>completada\<close>.\<close>

lemma estadisticas_total:
  "total (estadisticas_de aCadena ts) = length ts \<and>
   total (estadisticas_de aCadena ts) =
     completadas (estadisticas_de aCadena ts) + pendientes (estadisticas_de aCadena ts)"
  by (simp add: estadisticas_de_def sum_length_filter_compl)

lemma estadisticas_vacia:
  "estadisticas_de aCadena [] = \<lparr>total = 0, completadas = 0, pendientes = 0, porCategoria = []\<rparr>"
  by (simp add: estadisticas_de_def)

text \<open>
  On a table of positive counters, counting a key that the prototype does not answer for
  adds one to the key's counter, or appends the key with the counter 1.
\<close>

lemma map_of_de_nat: "map_of (de_nat m) k = map_option (\<lambda>n. Num (real n)) (map_of m k)"
  by (induction m) (auto simp: de_nat_def)

lemma update_de_nat: "AList.update k (Num (real n)) (de_nat m) = de_nat (AList.update k n m)"
  by (induction m) (auto simp: de_nat_def)

lemma contar_de_nat:
  assumes "segura k" and "\<forall>n\<in>snd ` set m. 0 < n"
  shows "contar (de_nat m) k =
           de_nat (AList.update k (Suc (case map_of m k of None \<Rightarrow> 0 | Some n \<Rightarrow> n)) m)"
proof (cases "map_of m k")
  case None
  with assms(1) have l: "leer (de_nat m) k = Ausente"
    by (simp add: leer_def segura_def map_of_de_nat)
  have a: "asignar (de_nat m) k (Num 0) = de_nat (AList.update k 0 m)"
    using assms(1) update_de_nat [of k 0 m] by (simp add: asignar_def segura_def)
  have l2: "leer (de_nat (AList.update k 0 m)) k = Propia (Num 0)"
    using assms(1) by (simp add: leer_def segura_def map_of_de_nat AList.update_conv')
  have "asignar (de_nat (AList.update k 0 m)) k (Num 1) = de_nat (AList.update k (Suc 0) m)"
    using assms(1) update_de_nat [of k "Suc 0" "AList.update k 0 m"]
    by (simp add: asignar_def segura_def)
  with l a l2 None show ?thesis
    by (simp add: contar_def)
next
  case (Some n)
  then have "n \<in> snd ` set m"
    by (metis map_of_SomeD snd_conv image_eqI)
  with assms(2) have pos: "0 < n" by blast
  from Some assms(1) have l: "leer (de_nat m) k = Propia (Num (real n))"
    by (simp add: leer_def segura_def map_of_de_nat)
  have "asignar (de_nat m) k (Num (real n + 1)) = de_nat (AList.update k (Suc n) m)"
    using assms(1) update_de_nat [of k "Suc n" m] by (simp add: asignar_def segura_def add.commute)
  with l pos Some show ?thesis
    by (simp add: contar_def)
qed

lemma suma_update:
  "sum_list (map snd (AList.update k (Suc (case map_of m k of None \<Rightarrow> 0 | Some n \<Rightarrow> n)) m)) =
     Suc (sum_list (map snd m))"
  by (induction m) auto

lemma positivos_update:
  "\<forall>n\<in>snd ` set m. 0 < n \<Longrightarrow> \<forall>n\<in>snd ` set (AList.update k (Suc j) m). 0 < n"
  by (induction m) auto

lemma foldl_mas: "foldl mas (Num a) (map (\<lambda>n. Num (real n)) ns) = Num (a + real (sum_list ns))"
  by (induction ns arbitrary: a) (auto simp: add.assoc)

lemma suma_de_nat: "suma (map snd (de_nat m)) = Num (real (sum_list (map snd m)))"
proof -
  have "map snd (de_nat m) = map (\<lambda>n. Num (real n)) (map snd m)"
    by (simp add: de_nat_def split_def)
  with foldl_mas [of 0 "map snd m"] show ?thesis
    by (simp add: suma_def)
qed

lemma contar_todas:
  assumes "\<forall>t\<in>set ts. segura (clave aCadena (campo t ''categoria''))"
    and "\<forall>n\<in>snd ` set m. 0 < n"
  shows "\<exists>m'. foldl (\<lambda>pc t. contar pc (clave aCadena (campo t ''categoria''))) (de_nat m) ts
                 = de_nat m' \<and>
              sum_list (map snd m') = sum_list (map snd m) + length ts"
  using assms
proof (induction ts arbitrary: m)
  case Nil
  show ?case by (intro exI [of _ m]) simp
next
  case (Cons t ts)
  define k where "k = clave aCadena (campo t ''categoria'')"
  define m1 where "m1 = AList.update k (Suc (case map_of m k of None \<Rightarrow> 0 | Some n \<Rightarrow> n)) m"
  from Cons.prems have s: "segura k"
    by (simp add: k_def)
  have c: "contar (de_nat m) k = de_nat m1"
    unfolding m1_def by (rule contar_de_nat [OF s Cons.prems(2)])
  have p: "\<forall>n\<in>snd ` set m1. 0 < n"
    unfolding m1_def by (rule positivos_update [OF Cons.prems(2)])
  from Cons.prems(1) have r: "\<forall>t\<in>set ts. segura (clave aCadena (campo t ''categoria''))"
    by simp
  from Cons.IH [OF r p] obtain m' where
    "foldl (\<lambda>pc t. contar pc (clave aCadena (campo t ''categoria''))) (de_nat m1) ts = de_nat m'"
    "sum_list (map snd m') = sum_list (map snd m1) + length ts"
    by blast
  with c show ?case
    by (intro exI [of _ m']) (simp add: k_def [symmetric] m1_def suma_update)
qed

text \<open>
  So the counters add up to the total whenever no task's category key is a property name
  of \<^verbatim>\<open>Object.prototype\<close>.
\<close>

lemma estadisticas_seguras:
  assumes "\<forall>t\<in>set ts. segura (clave aCadena (campo t ''categoria''))"
  shows "suma (map snd (porCategoria (estadisticas_de aCadena ts))) =
           Num (real (total (estadisticas_de aCadena ts)))"
proof -
  from contar_todas [OF assms, of "[]"] obtain m' where
    "foldl (\<lambda>pc t. contar pc (clave aCadena (campo t ''categoria''))) [] ts = de_nat m'"
    "sum_list (map snd m') = length ts"
    by (auto simp: de_nat_def)
  then show ?thesis
    by (simp add: estadisticas_de_def suma_de_nat)
qed

text \<open>
  Claim C7 fails on the code. With \<^verbatim>\<open>tareas\<close> bound to an empty array, creating one
  task with the category \<^verbatim>\<open>"constructor"\<close> and asking for the statistics gives the total
  1 and, under \<open>porCategoria\<close>, the single entry \<^verbatim>\<open>constructor: NaN\<close>: the object literal
  inherits a truthy \<^verbatim>\<open>constructor\<close>, so the counter is not set to 0 before \<^verbatim>\<open>++\<close>
  turns the inherited function into \<^verbatim>\<open>NaN\<close>. The counters do not add up to the total.
  In the starting store, where nothing declares \<^verbatim>\<open>tareas\<close>, the same two requests are
  both answered with status 500, the statistics at line 170, so the statistics are not
  returned without error either.
\<close>

theorem estadisticas_constructor:
  "(\<exists>t st. ejecutar aCadena almacen_ligado
             [PCrear cuerpo_constructor ''2024-05-01T10:00:00.000Z'', PEstadisticas] =
           (\<lparr>tareas = Some [t], contadorId = 4\<rparr>,
            [Respuesta 201 (CTarea t), Respuesta 200 (CEstadisticas st)]) \<and>
          campo t ''categoria'' = JStr ''constructor'' \<and>
          total st = 1 \<and> completadas st = 0 \<and> pendientes st = 1 \<and>
          porCategoria st = [(''constructor'', NaN)] \<and>
          suma (map snd (porCategoria st)) = NaN \<and>
          suma (map snd (porCategoria st)) \<noteq> Num (real (total st))) \<and>
   ejecutar aCadena almacen_inicial
       [PCrear cuerpo_constructor ''2024-05-01T10:00:00.000Z'', PEstadisticas] =
     (\<lparr>tareas = None, contadorId = 4\<rparr>,
      [Respuesta 500 (CExcepcion ''ReferenceError: tareas is not defined''),
       Respuesta 500 (CExcepcion ''ReferenceError: tareas is not defined'')])"
proof -
  define t where "t = the (tareas (fst (crear almacen_ligado cuerpo_constructor
      ''2024-05-01T10:00:00.000Z''))) ! 0"
  define st where "st = estadisticas_de aCadena [t]"
  have cr: "crear almacen_ligado cuerpo_constructor ''2024-05-01T10:00:00.000Z'' =
      (\<lparr>tareas = Some [t], contadorId = 4\<rparr>, Respuesta 201 (CTarea t))"
    by (simp add: t_def crear_def almacen_ligado_def cuerpo_constructor_def campo_def Let_def)
  have ca: "campo t ''categoria'' = JStr ''constructor''"
    and co: "campo t ''completada'' = JBool False"
    by (simp_all add: t_def crear_def almacen_ligado_def cuerpo_constructor_def campo_def Let_def)
  have ej: "ejecutar aCadena almacen_ligado
             [PCrear cuerpo_constructor ''2024-05-01T10:00:00.000Z'', PEstadisticas] =
           (\<lparr>tareas = Some [t], contadorId = 4\<rparr>,
            [Respuesta 201 (CTarea t), Respuesta 200 (CEstadisticas st)])"
    by (simp add: cr obtenerEstadisticas_def st_def)
  have pc: "porCategoria st = [(''constructor'', NaN)]"
    by (simp add: st_def estadisticas_de_def ca clave_def contar_def leer_def asignar_def
        proto_funciones_def)
  have tot: "total st = 1" "completadas st = 0" "pendientes st = 1"
    by (simp_all add: st_def estadisticas_de_def co)
  have su: "suma (map snd (porCategoria st)) = NaN"
    by (simp add: pc suma_def)
  from ej ca tot pc su have ligado: "\<exists>t st. ejecutar aCadena almacen_ligado
             [PCrear cuerpo_constructor ''2024-05-01T10:00:00.000Z'', PEstadisticas] =
           (\<lparr>tareas = Some [t], contadorId = 4\<rparr>,
            [Respuesta 201 (CTarea t), Respuesta 200 (CEstadisticas st)]) \<and>
          campo t ''categoria'' = JStr ''constructor'' \<and>
          total st = 1 \<and> completadas st = 0 \<and> pendientes st = 1 \<and>
          porCategoria st = [(''constructor'', NaN)] \<and>
          suma (map snd (porCategoria st)) = NaN \<and>
          suma (map snd (porCategoria st)) \<noteq> Num (real (total st))"
    by (intro exI [of _ t] exI [of _ st]) simp
  have "ejecutar aCadena almacen_inicial
       [PCrear cuerpo_constructor ''2024-05-01T10:00:00.000Z'', PEstadisticas] =
     (\<lparr>tareas = None, contadorId = 4\<rparr>,
      [Respuesta 500 (CExcepcion ''ReferenceError: tareas is not defined''),
       Respuesta 500 (CExcepcion ''ReferenceError: tareas is not defined'')])"
    by (simp add: crear_sin_array lecturas_sin_array almacen_inicial_def cuerpos_validos
        no_declarada_def)
  with ligado show ?thesis
    by (intro conjI)
qed

text \<open>
  A task with the category \<^verbatim>\<open>"__proto__"\<close> is not counted under any category at all,
  and of two tasks with the category \<^verbatim>\<open>"toString"\<close> one is counted.
\<close>

lemma contar_proto: "contar pc ''__proto__'' = pc"
  by (simp add: contar_def leer_def asignar_def)

lemma contar_toString: "contar (contar [] ''toString'') ''toString'' = [(''toString'', Num 1)]"
  by (simp add: contar_def leer_def asignar_def proto_funciones_def)

section \<open>The handlers with the array bound\<close>

text \<open>
  What the handler bodies do in a store where \<^verbatim>\<open>tareas\<close> is bound to an array. The
  program itself reaches no such store; these lemmas record what its text computes once
  the identifier resolves.
\<close>

lemma campo_id_ejemplos [simp]:
  "campo tarea_leche ''id'' = JNum 3" "campo tarea_pan ''id'' = JNum 4"
  by (simp_all add: tarea_leche_def tarea_pan_def campo_def)

lemma filter_si: "(if c then filter P xs else xs) = filter (\<lambda>x. if c then P x else True) xs"
  by simp

text \<open>The three filters in a row are one filter by the conjunction of their tests.\<close>

lemma listar_ligado:
  assumes "tareas s = Some ts"
  shows "listar s q =
     Respuesta 200 (CLista (filter (\<lambda>t.
        (if q_truthy (q_categoria q) then q_igual (campo t ''categoria'') (q_categoria q)
         else True) \<and>
        (if q_truthy (q_prioridad q) then q_igual (campo t ''prioridad'') (q_prioridad q)
         else True) \<and>
        (if q_completada q \<noteq> None
         then campo t ''completada'' = JBool (q_completada q = Some (QStr ''true''))
         else True)) ts))"
  unfolding listar_def assms option.case Let_def filter_si [of "q_truthy (q_categoria q)"]
    filter_si [of "q_truthy (q_prioridad q)"] filter_si [of "q_completada q \<noteq> None"]
    filter_filter
  by (simp add: conj_commute conj_left_commute cong: conj_cong)

text \<open>
  A category filter that is the empty string fails the test of line 67 and is ignored,
  while an empty completion filter passes the test of line 77 and selects \<^verbatim>\<open>false\<close>.
\<close>

lemma listar_categoria_vacia:
  "listar almacen_dos \<lparr>q_categoria = Some (QStr ''''), q_prioridad = None, q_completada = None\<rparr>
     = Respuesta 200 (CLista [tarea_leche, tarea_pan])"
  "listar almacen_dos \<lparr>q_categoria = None, q_prioridad = None, q_completada = Some (QStr '''')\<rparr>
     = Respuesta 200 (CLista [tarea_leche])"
  by (simp_all add: listar_def almacen_dos_def tarea_leche_def tarea_pan_def campo_def)

lemma crear_ligado:
  assumes "tareas s = Some ts" and "truthy (campo body ''titulo'')"
    and "truthy (campo body ''categoria'')" and "truthy (campo body ''prioridad'')"
  shows "\<exists>t. crear s body ahora =
               (\<lparr>tareas = Some (ts @ [t]), contadorId = siguiente (contadorId s)\<rparr>,
                Respuesta 201 (CTarea t)) \<and>
             campo t ''id'' = JNum (real (contadorId s)) \<and>
             campo t ''completada'' = JBool False"
proof -
  define t :: tarea where
    "t = [''id'' \<mapsto> JNum (real (contadorId s)),
          ''titulo'' \<mapsto> campo body ''titulo'',
          ''descripcion'' \<mapsto> (if truthy (campo body ''descripcion'')
                                 then campo body ''descripcion'' else JStr ''''),
          ''categoria'' \<mapsto> campo body ''categoria'',
          ''prioridad'' \<mapsto> campo body ''prioridad'',
          ''completada'' \<mapsto> JBool False,
          ''fecha'' \<mapsto> JStr ahora]"
  have "crear s body ahora =
              (\<lparr>tareas = Some (ts @ [t]), contadorId = siguiente (contadorId s)\<rparr>,
               Respuesta 201 (CTarea t))"
    using assms by (simp add: crear_def Let_def t_def)
  moreover have "campo t ''id'' = JNum (real (contadorId s))" "campo t ''completada'' = JBool False"
    by (simp_all add: t_def campo_def)
  ultimately show ?thesis
    by (intro exI [of _ t]) (simp only: simp_thms)
qed

text \<open>
  Once the counter has reached \<open>2 ^ 53\<close>, a creation leaves it there, so the next
  creation hands out the same id.
\<close>

lemma crear_estancado:
  assumes "tareas s = Some ts" and "contadorId s = 2 ^ 53"
    and "truthy (campo body ''titulo'')" and "truthy (campo body ''categoria'')"
    and "truthy (campo body ''prioridad'')"
  shows "contadorId (fst (crear s body ahora)) = contadorId s"
  using assms siguiente_estanca by (simp add: crear_def Let_def)

lemma no_encontrada_ligado:
  assumes "tareas s = Some ts" and "\<forall>t\<in>set ts. \<not> id_igual i t"
  shows "obtener s i = no_encontrada" "actualizar s i body = (s, no_encontrada)"
    "alternar s i = (s, no_encontrada)" "eliminar s i = (s, no_encontrada)"
proof -
  from assms(2) have "findIndex (id_igual i) ts = None" "find (id_igual i) ts = None"
    by (simp_all add: findIndex_None_iff find_None_iff)
  with assms(1) show "obtener s i = no_encontrada" "actualizar s i body = (s, no_encontrada)"
    "alternar s i = (s, no_encontrada)" "eliminar s i = (s, no_encontrada)"
    by (simp_all add: obtener_def actualizar_def alternar_def eliminar_def)
qed

text \<open>
  An update stores whatever value the body gives for \<open>completada\<close>; toggling stores the
  negation of its truthiness, so two toggles of the string \<^verbatim>\<open>"si"\<close> leave \<^verbatim>\<open>true\<close>.
\<close>

lemma alternar_no_booleano:
  "\<exists>s1 s2 t. actualizar almacen_dos (Num 3) [''completada'' \<mapsto> JStr ''si''] =
       (s1, Respuesta 200 (CTarea t)) \<and>
     campo t ''completada'' = JStr ''si'' \<and>
     fst (alternar (fst (alternar s1 (Num 3))) (Num 3)) = s2 \<and>
     map (\<lambda>u. campo u ''completada'') (the (tareas s2)) = [JBool True, JBool True]"
  by (simp add: actualizar_def alternar_def almacen_dos_def Let_def campo_def tarea_leche_def
      tarea_pan_def)


end
